theory Spec2Isabelle
  imports Complex_Main "HOL-Library.Word" "HOL-Library.Log_Nat" "HOL-Library.AList"
begin

section \<open>JavaScript strings\<close>

text \<open>
  A JavaScript string is a sequence of UTF-16 code units; \<open>length\<close>, \<open>includes\<close>,
  \<open>trim\<close> and regular expressions without the \<open>u\<close> flag all work on code units.
\<close>

type_synonym jschar = "16 word"
type_synonym jsstring = "jschar list"

definition lit :: "string \<Rightarrow> jsstring" where
  "lit s = map (\<lambda>c. of_char c) s"

text \<open>Decimal rendering of a non-negative integer, as a template literal does.\<close>

function decimal :: "nat \<Rightarrow> jsstring" where
  "decimal n =
     (if n < 10 then [of_nat (48 + n)]
      else decimal (n div 10) @ [of_nat (48 + n mod 10)])"
  by pat_completeness auto
termination
  by (relation "measure id") auto

declare decimal.simps [simp del]

text \<open>
  White space as \<open>String.prototype.trim\<close> and the class \<open>\s\<close> understand it:
  WhiteSpace and LineTerminator of ECMAScript.
\<close>

definition is_js_space :: "jschar \<Rightarrow> bool" where
  "is_js_space c \<longleftrightarrow>
     c = 0x09 \<or> c = 0x0A \<or> c = 0x0B \<or> c = 0x0C \<or> c = 0x0D \<or> c = 0x20 \<or>
     c = 0xA0 \<or> c = 0x1680 \<or> (0x2000 \<le> c \<and> c \<le> 0x200A) \<or>
     c = 0x2028 \<or> c = 0x2029 \<or> c = 0x202F \<or> c = 0x205F \<or> c = 0x3000 \<or> c = 0xFEFF"

definition trim :: "jsstring \<Rightarrow> jsstring" where
  "trim s = rev (dropWhile is_js_space (rev (dropWhile is_js_space s)))"

fun starts_with :: "jsstring \<Rightarrow> jsstring \<Rightarrow> bool" where
  "starts_with s [] = True"
| "starts_with [] (p # ps) = False"
| "starts_with (c # cs) (p # ps) = (c = p \<and> starts_with cs ps)"

fun includes_str :: "jsstring \<Rightarrow> jsstring \<Rightarrow> bool" where
  "includes_str [] p = (p = [])"
| "includes_str (c # cs) p = (starts_with (c # cs) p \<or> includes_str cs p)"

section \<open>types/file\<close>

definition MAX_FILE_SIZE :: nat where
  "MAX_FILE_SIZE = 52428800"

definition MAX_FILENAME_LENGTH :: nat where
  "MAX_FILENAME_LENGTH = 255"

text \<open>The character class of \<open>ALLOWED_FILENAME_PATTERN = /^[a-zA-Z0-9._\-\s()]+$/\<close>.\<close>

definition allowed_char :: "jschar \<Rightarrow> bool" where
  "allowed_char c \<longleftrightarrow>
     (0x61 \<le> c \<and> c \<le> 0x7A) \<or> (0x41 \<le> c \<and> c \<le> 0x5A) \<or> (0x30 \<le> c \<and> c \<le> 0x39) \<or>
     c = 0x2E \<or> c = 0x5F \<or> c = 0x2D \<or> is_js_space c \<or> c = 0x28 \<or> c = 0x29"

definition ALLOWED_FILENAME_PATTERN_test :: "jsstring \<Rightarrow> bool" where
  "ALLOWED_FILENAME_PATTERN_test s \<longleftrightarrow> s \<noteq> [] \<and> list_all allowed_char s"

datatype UploadStatus = Queued | Uploading | Processing | Completed | Failed

record File =
  file_name :: jsstring
  file_size :: nat

section \<open>lib/validators\<close>

record ValidationResult =
  valid :: bool
  verror :: "jsstring option"

text \<open>
  \<open>MAX_FILE_SIZE / (1024 * 1024)\<close> is exactly 50, which \<open>toFixed(0)\<close> prints as it is.
\<close>

definition validateFileSize :: "File \<Rightarrow> ValidationResult" where
  "validateFileSize file =
     (if file_size file = 0 then
        \<lparr>valid = False, verror = Some (lit ''Cannot upload empty file'')\<rparr>
      else if file_size file > MAX_FILE_SIZE then
        (let maxSizeMB = decimal (MAX_FILE_SIZE div (1024 * 1024)) in
         \<lparr>valid = False,
          verror = Some (lit ''File size exceeds '' @ maxSizeMB @ lit ''MB limit'')\<rparr>)
      else \<lparr>valid = True, verror = None\<rparr>)"

text \<open>The class of \<open>invalidChars = /[<>"'`\n\r\t\0/\\]/\<close>.\<close>

definition invalid_char :: "jschar \<Rightarrow> bool" where
  "invalid_char c \<longleftrightarrow>
     c = 0x3C \<or> c = 0x3E \<or> c = 0x22 \<or> c = 0x27 \<or> c = 0x60 \<or> c = 0x0A \<or> c = 0x0D \<or>
     c = 0x09 \<or> c = 0x00 \<or> c = 0x2F \<or> c = 0x5C"

definition invalidChars_test :: "jsstring \<Rightarrow> bool" where
  "invalidChars_test s \<longleftrightarrow> list_ex invalid_char s"

definition validateFilename :: "jsstring \<Rightarrow> ValidationResult" where
  "validateFilename filename =
     (if filename = [] \<or> trim filename = [] then
        \<lparr>valid = False, verror = Some (lit ''Filename cannot be empty'')\<rparr>
      else if length filename > MAX_FILENAME_LENGTH then
        \<lparr>valid = False,
         verror = Some (lit ''Filename exceeds maximum length of '' @
                        decimal MAX_FILENAME_LENGTH @ lit '' characters'')\<rparr>
      else if includes_str filename (lit ''..'') then
        \<lparr>valid = False,
         verror = Some (lit ''Filename cannot contain path traversal sequences (..)'')\<rparr>
      else if invalidChars_test filename then
        \<lparr>valid = False,
         verror = Some (lit ''Filename contains invalid characters (<, >, '' @ [0x22] @ lit '', '' @
                        [0x27] @ lit '', `, /, '' @ [0x5C] @ lit '', newline, tab, null)'')\<rparr>
      else if \<not> ALLOWED_FILENAME_PATTERN_test filename then
        \<lparr>valid = False,
         verror = Some (lit ''Filename can only contain letters, numbers, dots, underscores, hyphens, spaces, and parentheses'')\<rparr>
      else \<lparr>valid = True, verror = None\<rparr>)"

definition validateFile :: "File \<Rightarrow> ValidationResult" where
  "validateFile file =
     (let sizeValidation = validateFileSize file in
      if \<not> valid sizeValidation then sizeValidation
      else
        let filenameValidation = validateFilename (file_name file) in
        if \<not> valid filenameValidation then filenameValidation
        else \<lparr>valid = True, verror = None\<rparr>)"

section \<open>JavaScript values met by the upload hook\<close>

text \<open>
  A JavaScript number: a finite double is the rational it denotes, and the three values
  that are no rational are kept apart.
\<close>

datatype jsnum = Num rat | PosInf | NegInf | NaN


subsection \<open>Double arithmetic of the progress percentage\<close>

text \<open>
  \<open>rne_div p q\<close> is the integer nearest to \<open>p / q\<close>, a tie going to the even one.
\<close>

definition rne_div :: "nat \<Rightarrow> nat \<Rightarrow> nat" where
  "rne_div p q =
     (let d = p div q; r = p mod q
      in if 2 * r < q then d else if q < 2 * r then d + 1 else if even d then d else d + 1)"

text \<open>\<open>pow2_le k p q\<close> decides \<open>2 ^ k \<le> p / q\<close> for an integer \<open>k\<close> of either sign.\<close>

definition pow2_le :: "int \<Rightarrow> nat \<Rightarrow> nat \<Rightarrow> bool" where
  "pow2_le k p q = (if 0 \<le> k then q * 2 ^ nat k \<le> p else q \<le> p * 2 ^ nat (- k))"

text \<open>
  The double nearest to the positive rational \<open>p / q\<close> (round to nearest, ties to
  even, 53 bits of significand), as a pair \<open>(m, e)\<close> that stands for \<open>m * 2 ^ e\<close>.
  The exponent is not bounded: the quotients and products below stay far inside the
  range of normal doubles.
\<close>

definition to_double :: "nat \<Rightarrow> nat \<Rightarrow> nat \<times> int" where
  "to_double p q =
     (let k = int (floorlog 2 p) - int (floorlog 2 q);
          b = (if pow2_le k p q then k else k - 1);
          e = b - 52
      in if 0 \<le> e then (rne_div p (q * 2 ^ nat e), e)
         else (rne_div (p * 2 ^ nat (- e)) q, e))"

text \<open>
  The product of a double and 100, rounded to a double: the exact product is a ratio of
  two naturals.
\<close>

definition times_100 :: "nat \<times> int \<Rightarrow> nat \<times> int" where
  "times_100 d =
     (case d of (m, e) \<Rightarrow>
        if 0 \<le> e then to_double (m * 100 * 2 ^ nat e) 1
        else to_double (m * 100) (2 ^ nat (- e)))"

text \<open>\<open>Math.round\<close> of a positive double: the integer nearest to it, a tie going up.\<close>

definition Math_round :: "nat \<times> int \<Rightarrow> nat" where
  "Math_round d =
     (case d of (m, e) \<Rightarrow>
        if 0 \<le> e then m * 2 ^ nat e
        else (2 * m + 2 ^ nat (- e)) div 2 ^ (nat (- e) + 1))"

text \<open>
  \<open>Math.round((loaded / total) * 100)\<close> on two byte counts: the division and the
  multiplication each round to a double. A zero \<open>total\<close> gives \<open>NaN\<close> or \<open>Infinity\<close>.
\<close>

definition js_percentage :: "nat \<Rightarrow> nat \<Rightarrow> jsnum" where
  "js_percentage l t =
     (if t = 0 then (if l = 0 then NaN else PosInf)
      else if l = 0 then Num 0
      else Num (of_nat (Math_round (times_100 (to_double l t)))))"



text \<open>The value \<open>JSON.parse\<close> returns; in an object a later duplicate key wins.\<close>

datatype json =
    JNull
  | JBool bool
  | JNumber jsnum
  | JString jsstring
  | JArray "json list"
  | JObject "(jsstring \<times> json) list"

text \<open>
  \<open>JSON.parse(xhr.responseText)\<close> either throws a \<open>SyntaxError\<close> or returns a value.
  The parser is the platform's; a response is given by what the parser makes of it.
\<close>

datatype parse_result = SyntaxError | Parsed json

text \<open>ToBoolean.\<close>

fun truthy :: "json \<Rightarrow> bool" where
  "truthy JNull = False"
| "truthy (JBool b) = b"
| "truthy (JNumber n) = (n \<noteq> Num 0 \<and> n \<noteq> NaN)"
| "truthy (JString s) = (s \<noteq> [])"
| "truthy (JArray xs) = True"
| "truthy (JObject kvs) = True"

text \<open>
  Reading the property \<open>detail\<close> or \<open>message\<close> of a parsed value. \<open>None\<close> is
  \<open>undefined\<close>; reading a property of \<open>null\<close> throws a \<open>TypeError\<close>, which is
  \<open>Inl ()\<close>. Neither name is an inherited property of a string, number, boolean or array.
\<close>

fun get_prop :: "json \<Rightarrow> jsstring \<Rightarrow> unit + json option" where
  "get_prop JNull k = Inl ()"
| "get_prop (JObject kvs) k = Inr (map_of (rev kvs) k)"
| "get_prop v k = Inr None"

text \<open>\<open>detail?.message\<close>: \<open>undefined\<close> when \<open>detail\<close> is \<open>undefined\<close> or \<open>null\<close>.\<close>

fun optional_message :: "json option \<Rightarrow> json option" where
  "optional_message None = None"
| "optional_message (Some JNull) = None"
| "optional_message (Some d) = (case get_prop d (lit ''message'') of Inl _ \<Rightarrow> None | Inr m \<Rightarrow> m)"

text \<open>\<open>a || b || c\<close> with \<open>c\<close> a non-empty string.\<close>

definition or_else :: "json option \<Rightarrow> json option \<Rightarrow> json \<Rightarrow> json" where
  "or_else a b c =
     (let rest = (case b of Some y \<Rightarrow> if truthy y then y else c | None \<Rightarrow> c)
      in case a of Some x \<Rightarrow> if truthy x then x else rest | None \<Rightarrow> rest)"

section \<open>hooks/useFileUpload\<close>

record FileUploadProgress =
  filename :: jsstring
  loaded :: nat
  total :: nat
  percentage :: jsnum
  status :: UploadStatus
  perror :: "json option"

text \<open>
  The state of one \<open>useFileUpload\<close> instance: the three \<open>useState\<close> cells and the two
  refs. An \<open>XMLHttpRequest\<close> is named by its index in the world's list of requests, an
  upload id \<open>upload-n\<close> by the number \<open>n\<close>.
\<close>

record hook =
  progress :: "FileUploadProgress option"
  uploading :: bool
  error :: "json option"
  xhrRef :: "nat option"
  uploadIdRef :: "nat option"

text \<open>
  An \<open>XMLHttpRequest\<close> with what its listeners close over: the hook whose state they
  set, the upload id and the file. \<open>Unsent\<close> until \<open>getTokenAndSend\<close> has called
  \<open>send\<close>, \<open>InFlight\<close> until one of load, error and abort has fired.
\<close>

datatype xhr_state = Unsent | InFlight | Done

record xhr =
  readyState :: xhr_state
  owner :: nat
  xhr_uploadId :: nat
  xhr_file :: File

text \<open>
  \<open>new Error(v)\<close> coerces \<open>v\<close> to a string. The string is kept as its parts: code units,
  and the rendering \<open>Number.prototype.toString\<close> gives a number, which is the platform's.
  An array is the join of its elements with commas, \<open>null\<close> elements being empty; an
  object is \<open>[object Object]\<close>, unless it has a property \<open>toString\<close> of its own, which a
  parsed object cannot call: the coercion then throws a \<open>TypeError\<close>, which is \<open>Inl ()\<close>.
\<close>

datatype text_part = Text jsstring | NumberText jsnum

type_synonym js_text = "text_part list"

fun join_texts :: "(unit + js_text) list \<Rightarrow> unit + js_text" where
  "join_texts [] = Inr []"
| "join_texts [t] = t"
| "join_texts (t # ts) =
     (case t of
        Inl e \<Rightarrow> Inl e
      | Inr a \<Rightarrow> (case join_texts ts of Inl e \<Rightarrow> Inl e | Inr b \<Rightarrow> Inr (a @ Text (lit '','') # b)))"

fun ToString :: "json \<Rightarrow> unit + js_text" where
  "ToString JNull = Inr [Text (lit ''null'')]"
| "ToString (JBool b) = Inr [Text (if b then lit ''true'' else lit ''false'')]"
| "ToString (JNumber n) = Inr [NumberText n]"
| "ToString (JString s) = Inr [Text s]"
| "ToString (JArray xs) = join_texts (map (\<lambda>x. if x = JNull then Inr [] else ToString x) xs)"
| "ToString (JObject kvs) =
     (if map_of kvs (lit ''toString'') = None then Inr [Text (lit ''[object Object]'')]
      else Inl ())"

text \<open>An \<open>Error\<close> object, by its message.\<close>

datatype js_error = Error js_text

text \<open>
  The options a component passes to \<open>useFileUpload\<close>. \<open>onSuccess\<close> is called inside the
  \<open>try\<close> of the load listener, so whether it returns or throws decides what the listener
  does next; it is given by what it does on each response. \<open>onError\<close> and \<open>onProgress\<close>
  are taken to return normally (the \<open>onError\<close> of \<open>FileUpload\<close> hands the error to the
  dashboard, which counts and logs it; \<open>FileUpload\<close> passes no \<open>onProgress\<close>).
\<close>

datatype outcome = Returns | Throws

record UseFileUploadOptions =
  onSuccess :: "json \<Rightarrow> outcome"

text \<open>
  The \<open>onSuccess\<close> of \<open>FileUpload\<close>: it clears the selection and the validation error
  and calls \<open>onUploadSuccess(response.file)\<close>; reading \<open>file\<close> of \<open>null\<close> throws.
\<close>

definition FileUpload_onSuccess :: "json \<Rightarrow> outcome" where
  "FileUpload_onSuccess response =
     (case get_prop response (lit ''file'') of Inl _ \<Rightarrow> Throws | Inr _ \<Rightarrow> Returns)"

text \<open>What the hook does to the world outside its own state, in the order it does it.\<close>

datatype action =
    SetProgress nat "FileUploadProgress option"
  | OnProgress nat FileUploadProgress
  | OnSuccess nat json
  | OnError nat js_error
  | Resolve nat json
  | Reject nat js_error
  | InvalidateQueries
  | Send nat
  | Abort nat

text \<open>
  The module state (\<open>activeUploadCancelFunctions\<close>, a \<open>Map\<close> in insertion order from
  upload id to the registering hook's \<open>cancel\<close>, and \<open>uploadIdCounter\<close>), every hook
  instance with the options it was made with, every request, and the trace of actions.
  In the initial world every hook is one made by \<open>FileUpload\<close>.
\<close>

record world =
  uploadIdCounter :: nat
  activeUploadCancelFunctions :: "(nat \<times> nat) list"
  hooks :: "nat \<Rightarrow> hook"
  options :: "nat \<Rightarrow> UseFileUploadOptions"
  xhrs :: "xhr list"
  trace :: "action list"

definition init_hook :: hook where
  "init_hook = \<lparr>progress = None, uploading = False, error = None, xhrRef = None, uploadIdRef = None\<rparr>"

definition init_world :: world where
  "init_world = \<lparr>uploadIdCounter = 0, activeUploadCancelFunctions = [], hooks = (\<lambda>_. init_hook),
                  options = (\<lambda>_. \<lparr>onSuccess = FileUpload_onSuccess\<rparr>),
                  xhrs = [], trace = []\<rparr>"

definition emit :: "action \<Rightarrow> world \<Rightarrow> world" where
  "emit a w = w\<lparr>trace := trace w @ [a]\<rparr>"

definition upd_hook :: "nat \<Rightarrow> (hook \<Rightarrow> hook) \<Rightarrow> world \<Rightarrow> world" where
  "upd_hook h f w = w\<lparr>hooks := (hooks w)(h := f (hooks w h))\<rparr>"

definition setProgress :: "nat \<Rightarrow> FileUploadProgress option \<Rightarrow> world \<Rightarrow> world" where
  "setProgress h p w = emit (SetProgress h p) (upd_hook h (\<lambda>s. s\<lparr>progress := p\<rparr>) w)"

definition setUploading :: "nat \<Rightarrow> bool \<Rightarrow> world \<Rightarrow> world" where
  "setUploading h b w = upd_hook h (\<lambda>s. s\<lparr>uploading := b\<rparr>) w"

definition setError :: "nat \<Rightarrow> json option \<Rightarrow> world \<Rightarrow> world" where
  "setError h e w = upd_hook h (\<lambda>s. s\<lparr>error := e\<rparr>) w"

definition set_uploadIdRef :: "nat \<Rightarrow> nat option \<Rightarrow> world \<Rightarrow> world" where
  "set_uploadIdRef h u w = upd_hook h (\<lambda>s. s\<lparr>uploadIdRef := u\<rparr>) w"

definition set_xhrRef :: "nat \<Rightarrow> nat option \<Rightarrow> world \<Rightarrow> world" where
  "set_xhrRef h x w = upd_hook h (\<lambda>s. s\<lparr>xhrRef := x\<rparr>) w"

definition registry_set :: "nat \<Rightarrow> nat \<Rightarrow> world \<Rightarrow> world" where
  "registry_set u h w =
     w\<lparr>activeUploadCancelFunctions := AList.update u h (activeUploadCancelFunctions w)\<rparr>"

definition registry_delete :: "nat \<Rightarrow> world \<Rightarrow> world" where
  "registry_delete u w =
     w\<lparr>activeUploadCancelFunctions := AList.delete u (activeUploadCancelFunctions w)\<rparr>"

definition set_readyState :: "nat \<Rightarrow> xhr_state \<Rightarrow> world \<Rightarrow> world" where
  "set_readyState x st w = w\<lparr>xhrs := (xhrs w)[x := (xhrs w ! x)\<lparr>readyState := st\<rparr>]\<rparr>"

text \<open>Statements run one after the other.\<close>

fun seq :: "(world \<Rightarrow> world) list \<Rightarrow> world \<Rightarrow> world" where
  "seq [] w = w"
| "seq (f # fs) w = seq fs (f w)"

subsection \<open>The listeners of one request\<close>

text \<open>
  Each listener is given the request \<open>x\<close>; \<open>h\<close>, \<open>u\<close> and \<open>file\<close> are the hook,
  the upload id and the file its closure holds. The callbacks of \<open>options\<close> are taken
  to be present; a call is recorded in the trace under the upload id, and so is the
  settling of the promise \<open>upload\<close> returned.
\<close>

definition on_progress :: "nat \<Rightarrow> bool \<Rightarrow> nat \<Rightarrow> nat \<Rightarrow> world \<Rightarrow> world" where
  "on_progress x lengthComputable e_loaded e_total w =
     (let h = owner (xhrs w ! x); u = xhr_uploadId (xhrs w ! x); file = xhr_file (xhrs w ! x) in
      if lengthComputable then
        let progressData = \<lparr>filename = file_name file, loaded = e_loaded, total = e_total,
                             percentage = js_percentage e_loaded e_total, status = Uploading,
                             perror = None\<rparr>
        in seq [setProgress h (Some progressData), emit (OnProgress u progressData)] w
      else w)"

text \<open>
  The load listener. In the 2xx branch \<open>JSON.parse\<close> and all that follows it, the call
  of \<open>onSuccess\<close> included, stand inside \<open>try\<close>: when the parser or the callback
  throws, the \<open>catch\<close> block runs, after whatever the \<open>try\<close> block has done by then.
  In the other branch nothing is caught: when \<open>JSON.parse\<close> throws, or reading
  \<open>detail\<close> of \<open>null\<close> throws, the listener ends there, before its first state
  update; when \<open>new Error(errorMsg)\<close> throws, it ends after the state updates and before
  \<open>onError\<close>.
\<close>

definition on_load :: "nat \<Rightarrow> nat \<Rightarrow> parse_result \<Rightarrow> world \<Rightarrow> world" where
  "on_load x xhr_status body w =
     (let h = owner (xhrs w ! x); u = xhr_uploadId (xhrs w ! x); file = xhr_file (xhrs w ! x) in
      if 200 \<le> xhr_status \<and> xhr_status < 300 then
        (let errorMsg = lit ''Failed to parse server response'';
             catch = seq [setError h (Some (JString errorMsg)),
                          setUploading h False,
                          setProgress h (Some \<lparr>filename = file_name file, loaded = file_size file,
                                               total = file_size file, percentage = Num 100,
                                               status = Failed, perror = Some (JString errorMsg)\<rparr>),
                          registry_delete u,
                          set_uploadIdRef h None,
                          emit (OnError u (Error [Text errorMsg])),
                          emit (Reject u (Error [Text errorMsg]))]
         in case body of
              SyntaxError \<Rightarrow> catch w
            | Parsed response \<Rightarrow>
                (let w1 = seq [setProgress h (Some \<lparr>filename = file_name file,
                                                      loaded = file_size file,
                                                      total = file_size file, percentage = Num 100,
                                                      status = Completed, perror = None\<rparr>),
                               emit InvalidateQueries,
                               setUploading h False,
                               registry_delete u,
                               set_uploadIdRef h None,
                               emit (OnSuccess u response)] w
                 in case onSuccess (options w h) response of
                      Returns \<Rightarrow> emit (Resolve u response) w1
                    | Throws \<Rightarrow> catch w1))
      else
        (let default_msg = JString (lit ''Upload failed with status '' @ decimal xhr_status) in
         case body of
           SyntaxError \<Rightarrow> w
         | Parsed errorResponse \<Rightarrow>
             (case get_prop errorResponse (lit ''detail'') of
                Inl _ \<Rightarrow> w
              | Inr detail \<Rightarrow>
                  (let errorMsg = or_else (optional_message detail) detail default_msg;
                       w1 = seq [setError h (Some errorMsg),
                                 setUploading h False,
                                 setProgress h (Some \<lparr>filename = file_name file, loaded = 0,
                                                      total = file_size file, percentage = Num 0,
                                                      status = Failed, perror = Some errorMsg\<rparr>),
                                 registry_delete u,
                                 set_uploadIdRef h None] w
                   in case ToString errorMsg of
                        Inl _ \<Rightarrow> w1
                      | Inr msg \<Rightarrow> seq [emit (OnError u (Error msg)),
                                        emit (Reject u (Error msg))] w1))))"

definition on_error :: "nat \<Rightarrow> world \<Rightarrow> world" where
  "on_error x w =
     (let h = owner (xhrs w ! x); u = xhr_uploadId (xhrs w ! x); file = xhr_file (xhrs w ! x);
          errorMsg = lit ''Network error during upload'' in
      seq [setError h (Some (JString errorMsg)),
           setUploading h False,
           setProgress h (Some \<lparr>filename = file_name file, loaded = 0,
                                total = file_size file, percentage = Num 0,
                                status = Failed, perror = Some (JString errorMsg)\<rparr>),
           registry_delete u,
           set_uploadIdRef h None,
           emit (OnError u (Error [Text errorMsg])),
           emit (Reject u (Error [Text errorMsg]))] w)"

definition on_abort :: "nat \<Rightarrow> world \<Rightarrow> world" where
  "on_abort x w =
     (let h = owner (xhrs w ! x); u = xhr_uploadId (xhrs w ! x);
          errorMsg = lit ''Upload cancelled'' in
      seq [setError h (Some (JString errorMsg)),
           setUploading h False,
           setProgress h None,
           registry_delete u,
           set_uploadIdRef h None,
           emit (OnError u (Error [Text errorMsg])),
           emit (Reject u (Error [Text errorMsg]))] w)"

text \<open>
  \<open>xhr.abort()\<close>: a request in flight is ended and its abort listener runs before
  \<open>abort\<close> returns; on a request not yet sent, or already ended, no event is fired.
\<close>

definition xhr_abort :: "nat \<Rightarrow> world \<Rightarrow> world" where
  "xhr_abort x w =
     (let w' = emit (Abort x) w in
      if x < length (xhrs w') \<and> readyState (xhrs w' ! x) = InFlight
      then on_abort x (set_readyState x Done w') else w')"

subsection \<open>cancel, upload, cancelAllActiveUploads\<close>

definition cancel :: "nat \<Rightarrow> world \<Rightarrow> world" where
  "cancel h w =
     (case xhrRef (hooks w h) of
        None \<Rightarrow> w
      | Some x \<Rightarrow>
          (let w1 = seq [xhr_abort x,
                         setUploading h False,
                         setError h (Some (JString (lit ''Upload cancelled''))),
                         setProgress h None] w
           in case uploadIdRef (hooks w1 h) of
                None \<Rightarrow> w1
              | Some u \<Rightarrow> seq [registry_delete u, set_uploadIdRef h None] w1))"

text \<open>
  \<open>upload\<close> up to the point where it returns its promise: either the promise is already
  rejected (validation failed), or a request has been made and registered and waits for
  \<open>getTokenAndSend\<close>.
\<close>

definition upload :: "nat \<Rightarrow> File \<Rightarrow> world \<Rightarrow> world" where
  "upload h file w =
     (let uploadId = uploadIdCounter w + 1;
          w1 = seq [set_uploadIdRef h (Some uploadId),
                    setUploading h True,
                    setError h None,
                    setProgress h (Some \<lparr>filename = file_name file, loaded = 0,
                                         total = file_size file, percentage = Num 0,
                                         status = Uploading, perror = None\<rparr>)]
                   (w\<lparr>uploadIdCounter := uploadId\<rparr>);
          validation = validateFile file
      in if \<not> valid validation then
           (let errorMsg = (case verror validation of
                              None \<Rightarrow> lit ''File validation failed''
                            | Some e \<Rightarrow> if e = [] then lit ''File validation failed'' else e)
            in seq [setError h (Some (JString errorMsg)),
                    setUploading h False,
                    registry_delete uploadId,
                    set_uploadIdRef h None,
                    emit (OnError uploadId (Error [Text errorMsg])),
                    emit (Reject uploadId (Error [Text errorMsg]))] w1)
         else
           (let x = length (xhrs w1) in
            seq [(\<lambda>w. w\<lparr>xhrs := xhrs w @ [\<lparr>readyState = Unsent, owner = h,
                                             xhr_uploadId = uploadId, xhr_file = file\<rparr>]\<rparr>),
                 set_xhrRef h (Some x),
                 registry_set uploadId h] w1))"

text \<open>
  \<open>Map.prototype.forEach\<close> visits the entries in insertion order and passes over an
  entry deleted before its turn; the cancel functions add none.
\<close>

fun forEach_cancel :: "(nat \<times> nat) list \<Rightarrow> world \<Rightarrow> world" where
  "forEach_cancel [] w = w"
| "forEach_cancel ((u, h) # rest) w =
     (if map_of (activeUploadCancelFunctions w) u = None then forEach_cancel rest w
      else forEach_cancel rest (cancel h w))"

definition cancelAllActiveUploads :: "world \<Rightarrow> world" where
  "cancelAllActiveUploads w =
     (forEach_cancel (activeUploadCancelFunctions w) w)\<lparr>activeUploadCancelFunctions := []\<rparr>"

subsection \<open>Events\<close>

text \<open>
  What can happen to the world: a call of \<open>upload\<close>, \<open>cancel\<close> or
  \<open>cancelAllActiveUploads\<close>, the session lookup of \<open>getTokenAndSend\<close> returning (the
  request is opened and sent; a request whose lookup never returns stays unsent), and the
  events of a request in flight. The platform
  delivers progress, load and error only to a request in flight, and load and error end it.
\<close>

datatype event =
    Upload nat File
  | TokenReady nat
  | XhrProgress nat bool nat nat
  | XhrLoad nat nat parse_result
  | XhrError nat
  | Cancel nat
  | CancelAll

definition in_state :: "nat \<Rightarrow> xhr_state \<Rightarrow> world \<Rightarrow> bool" where
  "in_state x st w \<longleftrightarrow> x < length (xhrs w) \<and> readyState (xhrs w ! x) = st"

fun step :: "world \<Rightarrow> event \<Rightarrow> world" where
  "step w (Upload h file) = upload h file w"
| "step w (TokenReady x) =
     (if in_state x Unsent w then seq [set_readyState x InFlight, emit (Send x)] w else w)"
| "step w (XhrProgress x lc l t) =
     (if in_state x InFlight w then on_progress x lc l t w else w)"
| "step w (XhrLoad x st body) =
     (if in_state x InFlight w then on_load x st body (set_readyState x Done w) else w)"
| "step w (XhrError x) =
     (if in_state x InFlight w then on_error x (set_readyState x Done w) else w)"
| "step w (Cancel h) = cancel h w"
| "step w CancelAll = cancelAllActiveUploads w"

definition run :: "event list \<Rightarrow> world" where
  "run es = foldl step init_world es"

text \<open>The callbacks \<open>onSuccess\<close> and \<open>onError\<close> called for upload \<open>u\<close>, in order.\<close>

fun is_callback :: "nat \<Rightarrow> action \<Rightarrow> bool" where
  "is_callback u (OnSuccess u' r) = (u' = u)"
| "is_callback u (OnError u' e) = (u' = u)"
| "is_callback u a = False"

definition callbacks :: "nat \<Rightarrow> world \<Rightarrow> action list" where
  "callbacks u w = filter (is_callback u) (trace w)"



fun is_send :: "action \<Rightarrow> bool" where
  "is_send (Send x) = True"
| "is_send a = False"

section \<open>components/FileUpload and hooks/useFiles\<close>

record FileMetadata =
  md_id :: jsstring
  md_filename :: jsstring

text \<open>
  The \<open>mutationFn\<close> of \<open>useCheckDuplicateFilename\<close>: the listing request either fails
  or returns files; a failure is caught, logged and answered with \<open>null\<close>.
  \<open>toLowerCase\<close> is the platform's and is a parameter.
\<close>

datatype listing = ListingFailed | Listing "FileMetadata list"

definition checkDuplicate_mutationFn ::
    "(jsstring \<Rightarrow> jsstring) \<Rightarrow> listing \<Rightarrow> jsstring \<Rightarrow> FileMetadata option" where
  "checkDuplicate_mutationFn toLowerCase response name =
     (case response of
        ListingFailed \<Rightarrow> None
      | Listing files \<Rightarrow> find (\<lambda>f. toLowerCase (md_filename f) = toLowerCase name) files)"

text \<open>
  How a promise awaited by \<open>handleFileSelect\<close> ends: \<open>mutateAsync\<close> with a file or
  \<open>null\<close>, \<open>upload\<close> with a response; either may reject, and \<open>upload\<close> may stay pending.
\<close>

datatype 'a settled = Fulfilled 'a | Rejected | Pending

datatype ui_action =
    SetValidationError "jsstring option"
  | SetSelectedFile File
  | CheckDuplicate jsstring
  | SetDuplicateFile FileMetadata
  | SetShowDuplicateDialog bool
  | OnUploadStart
  | CallUpload File

text \<open>
  \<open>handleFileSelect file\<close>: what it does, in order, and how its own promise ends, given
  how the lookup ends and how the first and the second call of \<open>upload\<close> end. The
  \<open>catch\<close> covers the whole \<open>try\<close> block, the \<open>upload\<close> in it included.
\<close>

definition handleFileSelect ::
    "File \<Rightarrow> FileMetadata option settled \<Rightarrow> unit settled \<Rightarrow> unit settled \<Rightarrow>
     ui_action list \<times> unit settled" where
  "handleFileSelect file lookup upload1 upload2 =
     (let validation = validateFile file in
      if \<not> valid validation then
        ([SetValidationError None,
          SetValidationError (Some (case verror validation of
                                      None \<Rightarrow> lit ''File validation failed''
                                    | Some e \<Rightarrow> if e = [] then lit ''File validation failed'' else e))],
         Fulfilled ())
      else
        (let start = [SetValidationError None, SetSelectedFile file, CheckDuplicate (file_name file)];
             catch = [OnUploadStart, CallUpload file]
         in case lookup of
              Pending \<Rightarrow> (start, Pending)
            | Rejected \<Rightarrow> (start @ catch, upload1)
            | Fulfilled (Some existing) \<Rightarrow>
                (start @ [SetDuplicateFile existing, SetShowDuplicateDialog True], Fulfilled ())
            | Fulfilled None \<Rightarrow>
                (case upload1 of
                   Rejected \<Rightarrow> (start @ [OnUploadStart, CallUpload file] @ catch, upload2)
                 | _ \<Rightarrow> (start @ [OnUploadStart, CallUpload file], upload1))))"

section \<open>The checks of the validator, one by one\<close>

text \<open>
  The violations a file can be reported for, each with the condition and the message of
  its check in \<open>validateFileSize\<close> and \<open>validateFilename\<close>, and the order of precedence.
\<close>

datatype ValidationError =
    EmptyFile | TooLarge | EmptyName | NameTooLong | PathTraversal | InvalidCharacters
  | DisallowedPattern

fun violates :: "File \<Rightarrow> ValidationError \<Rightarrow> bool" where
  "violates file EmptyFile = (file_size file = 0)"
| "violates file TooLarge = (file_size file > MAX_FILE_SIZE)"
| "violates file EmptyName = (file_name file = [] \<or> trim (file_name file) = [])"
| "violates file NameTooLong = (length (file_name file) > MAX_FILENAME_LENGTH)"
| "violates file PathTraversal = includes_str (file_name file) (lit ''..'')"
| "violates file InvalidCharacters = invalidChars_test (file_name file)"
| "violates file DisallowedPattern = (\<not> ALLOWED_FILENAME_PATTERN_test (file_name file))"

fun message_of :: "ValidationError \<Rightarrow> jsstring" where
  "message_of EmptyFile = lit ''Cannot upload empty file''"
| "message_of TooLarge = lit ''File size exceeds 50MB limit''"
| "message_of EmptyName = lit ''Filename cannot be empty''"
| "message_of NameTooLong = lit ''Filename exceeds maximum length of 255 characters''"
| "message_of PathTraversal = lit ''Filename cannot contain path traversal sequences (..)''"
| "message_of InvalidCharacters =
     lit ''Filename contains invalid characters (<, >, '' @ [0x22] @ lit '', '' @
     [0x27] @ lit '', `, /, '' @ [0x5C] @ lit '', newline, tab, null)''"
| "message_of DisallowedPattern =
     lit ''Filename can only contain letters, numbers, dots, underscores, hyphens, spaces, and parentheses''"

definition precedence :: "ValidationError list" where
  "precedence = [EmptyFile, TooLarge, EmptyName, NameTooLong, PathTraversal, InvalidCharacters,
                 DisallowedPattern]"

definition first_violation :: "File \<Rightarrow> ValidationError option" where
  "first_violation file = find (violates file) precedence"

section \<open>Concrete files, responses and sessions\<close>

definition report_pdf :: File where
  "report_pdf = \<lparr>file_name = lit ''report.pdf'', file_size = 1024\<rparr>"

definition photo_png :: File where
  "photo_png = \<lparr>file_name = lit ''photo.png'', file_size = 2048\<rparr>"

definition empty_txt :: File where
  "empty_txt = \<lparr>file_name = lit ''empty.txt'', file_size = 0\<rparr>"

text \<open>A name of 256 code units that begins with two dots.\<close>

definition long_dotted :: File where
  "long_dotted = \<lparr>file_name = lit ''..'' @ replicate 254 0x61, file_size = 1\<rparr>"

text \<open>A short name with two dots, a slash and an angle bracket.\<close>

definition dotted_slash :: File where
  "dotted_slash = \<lparr>file_name = lit ''../a<b'', file_size = 10\<rparr>"

definition upload_ok :: parse_result where
  "upload_ok = Parsed (JObject [(lit ''message'', JString (lit ''File uploaded successfully''))])"

definition too_large_body :: parse_result where
  "too_large_body = Parsed (JObject [(lit ''detail'', JString (lit ''too large''))])"

text \<open>
  One upload whose request is answered with status 500 and a body that is no JSON
  (a proxy's plain-text or HTML error page).
\<close>

definition rejected_unparseable :: "event list" where
  "rejected_unparseable = [Upload 0 report_pdf, TokenReady 0, XhrLoad 0 500 SyntaxError]"

text \<open>One upload that completes with status 200 and a JSON body.\<close>

definition completed_session :: "event list" where
  "completed_session = [Upload 0 report_pdf, TokenReady 0, XhrLoad 0 200 upload_ok]"

text \<open>
  Two files handed to the same hook one after the other, both requests sent, then
  \<open>cancelAllActiveUploads\<close>.
\<close>

definition two_uploads_cancelAll :: "event list" where
  "two_uploads_cancelAll =
     [Upload 0 report_pdf, Upload 0 photo_png, TokenReady 0, TokenReady 1, CancelAll]"

text \<open>
  One upload, \<open>cancelAllActiveUploads\<close> while \<open>getTokenAndSend\<close> still waits for the
  session, then the session arrives and the request is answered.
\<close>

definition cancelAll_before_send :: "event list" where
  "cancelAll_before_send = [Upload 0 report_pdf, CancelAll, TokenReady 0, XhrLoad 0 200 upload_ok]"

text \<open>One upload of an empty file.\<close>

definition empty_file_session :: "event list" where
  "empty_file_session = [Upload 0 empty_txt]"

section \<open>Statuses that are assigned\<close>

text \<open>
  The three statuses the hook writes, an action that publishes a progress value with
  none but these, and a world in which no other has been published or is shown.
\<close>

definition assigned_status :: "UploadStatus \<Rightarrow> bool" where
  "assigned_status s \<longleftrightarrow> s = Uploading \<or> s = Completed \<or> s = Failed"

fun publishes_assigned :: "action \<Rightarrow> bool" where
  "publishes_assigned (SetProgress h (Some p)) = assigned_status (status p)"
| "publishes_assigned (OnProgress u p) = assigned_status (status p)"
| "publishes_assigned a = True"

definition shows_assigned :: "hook \<Rightarrow> bool" where
  "shows_assigned s = (case progress s of None \<Rightarrow> True | Some p \<Rightarrow> assigned_status (status p))"

definition only_assigned :: "world \<Rightarrow> bool" where
  "only_assigned w \<longleftrightarrow> list_all publishes_assigned (trace w) \<and> (\<forall>h. shows_assigned (hooks w h))"

section \<open>A transfer that succeeds\<close>














subsection \<open>Events that pass a hook by\<close>






subsection \<open>Sessions of transfers that succeed\<close>






section \<open>A session its load listener has left\<close>

text \<open>
  A world in which the first request has ended, no callback has been called for upload 1,
  and no other request belongs to upload 1.
\<close>

definition abandoned :: "world \<Rightarrow> bool" where
  "abandoned w \<longleftrightarrow>
     callbacks 1 w = [] \<and> 1 \<le> uploadIdCounter w \<and> 0 < length (xhrs w) \<and>
     readyState (xhrs w ! 0) = Done \<and>
     list_all (\<lambda>r. xhr_uploadId r \<noteq> 1) (tl (xhrs w))"

section \<open>Evaluation\<close>

lemmas validator_defs =
  validateFile_def validateFileSize_def validateFilename_def MAX_FILE_SIZE_def
  MAX_FILENAME_LENGTH_def is_js_space_def invalidChars_test_def invalid_char_def
  ALLOWED_FILENAME_PATTERN_test_def allowed_char_def

lemmas hook_defs =
  upload_def cancel_def cancelAllActiveUploads_def xhr_abort_def on_abort_def on_error_def
  on_load_def on_progress_def setProgress_def setUploading_def setError_def set_uploadIdRef_def
  set_xhrRef_def registry_set_def registry_delete_def set_readyState_def upd_hook_def emit_def
  in_state_def run_def init_world_def init_hook_def callbacks_def FileUpload_onSuccess_def

lemmas session_defs =
  rejected_unparseable_def completed_session_def two_uploads_cancelAll_def
  cancelAll_before_send_def empty_file_session_def upload_ok_def too_large_body_def

section \<open>The validator\<close>

lemma trim_eq_Nil_iff: "trim s = [] \<longleftrightarrow> list_all is_js_space s"
proof -
  have "trim s = [] \<longleftrightarrow> (\<forall>c \<in> set (dropWhile is_js_space s). is_js_space c)"
    by (simp add: trim_def dropWhile_eq_Nil_conv)
  also have "\<dots> \<longleftrightarrow> dropWhile is_js_space s = []"
    using hd_dropWhile [of is_js_space s]
    by (cases "dropWhile is_js_space s") (auto dest: set_dropWhileD)
  also have "\<dots> \<longleftrightarrow> list_all is_js_space s"
    by (simp add: dropWhile_eq_Nil_conv list_all_iff)
  finally show ?thesis .
qed

lemma includes_str_hd: "includes_str s (a # p) \<Longrightarrow> a \<in> set s"
proof (induction s)
  case Nil
  then show ?case by simp
next
  case (Cons c cs)
  then show ?case by auto
qed

lemma dot_not_space: "\<not> is_js_space 0x2E"
  by (simp add: is_js_space_def)

lemma includes_dots_not_blank:
  assumes "includes_str s (lit ''..'')"
  shows "s \<noteq> []" and "trim s \<noteq> []"
proof -
  have dot: "0x2E \<in> set s"
    using assms includes_str_hd [of s "0x2E" "[0x2E]"] by (simp add: lit_def)
  then show "s \<noteq> []" by auto
  show "trim s \<noteq> []"
    using dot dot_not_space by (auto simp: trim_eq_Nil_iff list_all_iff)
qed

lemma validateFile_first_violation:
  "validateFile file =
     (case first_violation file of
        None \<Rightarrow> \<lparr>valid = True, verror = None\<rparr>
      | Some e \<Rightarrow> \<lparr>valid = False, verror = Some (message_of e)\<rparr>)"
  by (simp add: validateFile_def validateFileSize_def validateFilename_def first_violation_def
      precedence_def MAX_FILE_SIZE_def MAX_FILENAME_LENGTH_def decimal.simps Let_def lit_def)

lemma valid_report_pdf: "validateFile report_pdf = \<lparr>valid = True, verror = None\<rparr>"
  by (simp add: report_pdf_def validator_defs trim_eq_Nil_iff lit_def)

lemma valid_photo_png: "validateFile photo_png = \<lparr>valid = True, verror = None\<rparr>"
  by (simp add: photo_png_def validator_defs trim_eq_Nil_iff lit_def)

lemma invalid_empty_txt:
  "validateFile empty_txt = \<lparr>valid = False, verror = Some (lit ''Cannot upload empty file'')\<rparr>"
  by (simp add: empty_txt_def validateFile_def validateFileSize_def)

lemma report_pdf_fields:
  "file_name report_pdf = lit ''report.pdf''" "file_size report_pdf = 1024"
  by (simp_all add: report_pdf_def)

lemma validateFile_empty:
  "file_size file = 0 \<Longrightarrow>
   validateFile file = \<lparr>valid = False, verror = Some (lit ''Cannot upload empty file'')\<rparr>"
  by (simp add: validateFile_def validateFileSize_def)

text \<open>
  C6, as stated, fails: the file \<open>long_dotted\<close> has a name that contains \<open>..\<close>, and
  \<open>validateFile\<close> reports the length of the name, which has precedence, not the path
  traversal.
\<close>

theorem C6_counterexample:
  "includes_str (file_name long_dotted) (lit ''..'') \<and>
   validateFile long_dotted = \<lparr>valid = False, verror = Some (message_of NameTooLong)\<rparr> \<and>
   message_of NameTooLong \<noteq> message_of PathTraversal"
  by (simp add: long_dotted_def validator_defs trim_eq_Nil_iff decimal.simps lit_def)

text \<open>
  C6, amended: for every file, \<open>validateFile\<close> reports the first violated check in the
  order empty file, too large, empty name, name too long, path traversal, invalid
  characters, disallowed pattern, and accepts the file when none is violated. In
  particular, a file of accepted size whose name has at most 255 code units and contains
  \<open>..\<close> is reported for path traversal, whatever the checks of lower precedence
  (invalid characters, disallowed pattern) would say of its name.
\<close>

theorem C6_first_violation_reported:
  "validateFile file =
     (case first_violation file of
        None \<Rightarrow> \<lparr>valid = True, verror = None\<rparr>
      | Some e \<Rightarrow> \<lparr>valid = False, verror = Some (message_of e)\<rparr>) \<and>
   (0 < file_size file \<and> file_size file \<le> MAX_FILE_SIZE \<and>
    length (file_name file) \<le> MAX_FILENAME_LENGTH \<and>
    includes_str (file_name file) (lit ''..'') \<longrightarrow>
    validateFile file = \<lparr>valid = False, verror = Some (message_of PathTraversal)\<rparr>)"
proof (intro conjI impI)
  show "validateFile file =
     (case first_violation file of
        None \<Rightarrow> \<lparr>valid = True, verror = None\<rparr>
      | Some e \<Rightarrow> \<lparr>valid = False, verror = Some (message_of e)\<rparr>)"
    by (rule validateFile_first_violation)
next
  assume h: "0 < file_size file \<and> file_size file \<le> MAX_FILE_SIZE \<and>
    length (file_name file) \<le> MAX_FILENAME_LENGTH \<and>
    includes_str (file_name file) (lit ''..'')"
  then have "first_violation file = Some PathTraversal"
    using includes_dots_not_blank [of "file_name file"]
    by (simp add: first_violation_def precedence_def)
  then show "validateFile file = \<lparr>valid = False, verror = Some (message_of PathTraversal)\<rparr>"
    by (simp add: validateFile_first_violation)
qed

text \<open>
  C6, amended, at the file \<open>dotted_slash\<close>: its name also has invalid characters and
  falls outside the allowed pattern, and path traversal is what is reported.
\<close>

theorem C6_first_violation_reported_witness:
  "0 < file_size dotted_slash \<and> file_size dotted_slash \<le> MAX_FILE_SIZE \<and>
   length (file_name dotted_slash) \<le> MAX_FILENAME_LENGTH \<and>
   includes_str (file_name dotted_slash) (lit ''..'') \<and>
   violates dotted_slash InvalidCharacters \<and> violates dotted_slash DisallowedPattern \<and>
   validateFile dotted_slash = \<lparr>valid = False, verror = Some (message_of PathTraversal)\<rparr>"
  using C6_first_violation_reported [of dotted_slash, THEN conjunct2]
  by (simp add: dotted_slash_def MAX_FILE_SIZE_def MAX_FILENAME_LENGTH_def invalidChars_test_def
      invalid_char_def ALLOWED_FILENAME_PATTERN_test_def allowed_char_def is_js_space_def lit_def)

section \<open>Sessions that end without what the hook owes\<close>

text \<open>
  C2 at the session \<open>rejected_unparseable\<close>: after the load event with status 500 and
  a body that is no JSON, the hook still shows an upload in progress (status
  \<open>uploading\<close>, no error message) and the upload is still registered; the task has not
  reached \<open>failed\<close> and no message has been derived from the status code.
\<close>

theorem C2_rejection_leaves_task_uploading:
  "hooks (run rejected_unparseable) 0 =
     \<lparr>progress = Some \<lparr>filename = lit ''report.pdf'', loaded = 0, total = 1024,
                         percentage = Num 0, status = Uploading, perror = None\<rparr>,
      uploading = True, error = None, xhrRef = Some 0, uploadIdRef = Some 1\<rparr> \<and>
   activeUploadCancelFunctions (run rejected_unparseable) = [(1, 0)] \<and>
   readyState (xhrs (run rejected_unparseable) ! 0) = Done"
  by (simp add: session_defs hook_defs valid_report_pdf report_pdf_fields Let_def)

text \<open>
  C3 at the session \<open>completed_session\<close>: the upload has completed and is no longer
  registered; \<open>cancel\<close> then clears the published progress and sets the error message
  \<open>Upload cancelled\<close>.
\<close>

theorem C3_cancel_after_completion_changes_state:
  "progress (hooks (run completed_session) 0) =
     Some \<lparr>filename = lit ''report.pdf'', loaded = 1024, total = 1024,
            percentage = Num 100, status = Completed, perror = None\<rparr> \<and>
   error (hooks (run completed_session) 0) = None \<and>
   activeUploadCancelFunctions (run completed_session) = [] \<and>
   progress (hooks (run (completed_session @ [Cancel 0])) 0) = None \<and>
   error (hooks (run (completed_session @ [Cancel 0])) 0) = Some (JString (lit ''Upload cancelled''))"
  by (simp add: session_defs hook_defs valid_report_pdf report_pdf_fields Let_def)

text \<open>
  C4 at the sessions \<open>two_uploads_cancelAll\<close> and \<open>cancelAll_before_send\<close>. In the
  first, both entries of the registry hold the \<open>cancel\<close> of the same hook, which aborts
  the request the hook made last: after \<open>cancelAllActiveUploads\<close> the registry is
  empty, the first request is still in flight, no callback has been called for the
  first upload, and when its response arrives it completes with \<open>onSuccess\<close>. In the
  second, the request has not been sent when it is aborted, no abort event is fired,
  and the request is sent and completes afterwards.
\<close>

theorem C4_cancelAll_leaves_upload_running:
  "activeUploadCancelFunctions (run two_uploads_cancelAll) = [] \<and>
   readyState (xhrs (run two_uploads_cancelAll) ! 0) = InFlight \<and>
   callbacks 1 (run two_uploads_cancelAll) = [] \<and>
   callbacks 2 (run two_uploads_cancelAll) =
     [OnError 2 (Error [Text (lit ''Upload cancelled'')])] \<and>
   callbacks 1 (run (two_uploads_cancelAll @ [XhrLoad 0 200 upload_ok])) =
     [OnSuccess 1 (JObject [(lit ''message'', JString (lit ''File uploaded successfully''))])] \<and>
   activeUploadCancelFunctions (run (take 2 cancelAll_before_send)) = [] \<and>
   callbacks 1 (run cancelAll_before_send) =
     [OnSuccess 1 (JObject [(lit ''message'', JString (lit ''File uploaded successfully''))])] \<and>
   filter is_send (trace (run cancelAll_before_send)) = [Send 0]"
  by (simp add: session_defs hook_defs valid_report_pdf valid_photo_png Let_def)

text \<open>
  C5 at the session \<open>empty_file_session\<close>: validation has failed, no request has been
  made and the registry is empty, and the status the hook publishes is \<open>uploading\<close>.
\<close>

theorem C5_uploading_without_registration:
  "map_option status (progress (hooks (run empty_file_session) 0)) = Some Uploading \<and>
   uploading (hooks (run empty_file_session) 0) = False \<and>
   activeUploadCancelFunctions (run empty_file_session) = [] \<and>
   xhrs (run empty_file_session) = []"
  by (simp add: session_defs hook_defs invalid_empty_txt Let_def)

section \<open>No status but the three the hook writes\<close>

lemma only_assigned_init: "only_assigned init_world"
  by (simp add: only_assigned_def init_world_def init_hook_def shows_assigned_def)

lemmas prim_defs =
  setProgress_def setUploading_def setError_def set_uploadIdRef_def
  set_xhrRef_def registry_set_def registry_delete_def set_readyState_def upd_hook_def emit_def

lemma only_assigned_on_abort: "only_assigned w \<Longrightarrow> only_assigned (on_abort x w)"
  by (simp add: on_abort_def prim_defs only_assigned_def shows_assigned_def Let_def)

lemma only_assigned_xhr_abort: "only_assigned w \<Longrightarrow> only_assigned (xhr_abort x w)"
  using only_assigned_on_abort [of "set_readyState x Done (emit (Abort x) w)" x]
  by (simp add: xhr_abort_def Let_def) (simp add: prim_defs only_assigned_def)

lemma only_assigned_cancel: "only_assigned w \<Longrightarrow> only_assigned (cancel h w)"
  using only_assigned_xhr_abort [of w]
  by (simp add: cancel_def Let_def prim_defs only_assigned_def shows_assigned_def
      split: option.splits)

lemma only_assigned_on_error: "only_assigned w \<Longrightarrow> only_assigned (on_error x w)"
  by (simp add: on_error_def prim_defs only_assigned_def shows_assigned_def
      assigned_status_def Let_def)

lemma only_assigned_on_progress: "only_assigned w \<Longrightarrow> only_assigned (on_progress x lc l t w)"
  by (simp add: on_progress_def prim_defs only_assigned_def shows_assigned_def
      assigned_status_def Let_def)

lemma only_assigned_on_load: "only_assigned w \<Longrightarrow> only_assigned (on_load x st body w)"
  by (simp add: on_load_def prim_defs only_assigned_def shows_assigned_def
      assigned_status_def Let_def split: parse_result.splits sum.splits outcome.splits)

lemma only_assigned_upload: "only_assigned w \<Longrightarrow> only_assigned (upload h file w)"
  by (simp add: upload_def prim_defs only_assigned_def shows_assigned_def
      assigned_status_def Let_def)

lemma only_assigned_forEach_cancel:
  "only_assigned w \<Longrightarrow> only_assigned (forEach_cancel r w)"
proof (induction r arbitrary: w)
  case Nil
  then show ?case by simp
next
  case (Cons e r)
  obtain u h where e: "e = (u, h)" by (cases e)
  show ?case
    using Cons.IH [OF Cons.prems] Cons.IH [OF only_assigned_cancel [OF Cons.prems, of h]]
    by (simp add: e)
qed

lemma only_assigned_cancelAll: "only_assigned w \<Longrightarrow> only_assigned (cancelAllActiveUploads w)"
  using only_assigned_forEach_cancel [of w "activeUploadCancelFunctions w"]
  by (simp add: cancelAllActiveUploads_def only_assigned_def)

lemma only_assigned_set_readyState:
  "only_assigned w \<Longrightarrow> only_assigned (set_readyState x st w)"
  by (simp add: set_readyState_def only_assigned_def)

lemma only_assigned_step: "only_assigned w \<Longrightarrow> only_assigned (step w e)"
proof (cases e)
  case (TokenReady x)
  assume "only_assigned w"
  then show ?thesis
    by (simp add: TokenReady prim_defs only_assigned_def)
qed (simp_all add: only_assigned_upload only_assigned_on_progress only_assigned_on_load
      only_assigned_on_error only_assigned_cancel only_assigned_cancelAll
      only_assigned_set_readyState)

lemma only_assigned_foldl: "only_assigned w \<Longrightarrow> only_assigned (foldl step w es)"
  by (induction es arbitrary: w) (simp_all add: only_assigned_step)

lemma only_assigned_run: "only_assigned (run es)"
  by (simp add: run_def only_assigned_foldl only_assigned_init)

text \<open>
  C10: in every world reached from the initial one by calls of \<open>upload\<close>, \<open>cancel\<close>
  and \<open>cancelAllActiveUploads\<close> and by events of the requests, no progress value
  published through \<open>setProgress\<close> or \<open>onProgress\<close>, and none shown by a hook, has
  the status \<open>queued\<close> or \<open>processing\<close>. Every call of \<open>upload\<close> first publishes
  progress with status \<open>uploading\<close> and percentage 0, before it validates, and when
  validation fails that value is what the hook still shows when \<open>upload\<close> returns.
\<close>

theorem C10_only_uploading_completed_failed:
  "list_all publishes_assigned (trace (run es)) \<and>
   (\<forall>k. shows_assigned (hooks (run es) k)) \<and>
   \<not> assigned_status Queued \<and> \<not> assigned_status Processing \<and>
   take (Suc (length (trace w))) (trace (upload h file w)) =
     trace w @ [SetProgress h (Some \<lparr>filename = file_name file, loaded = 0,
                                       total = file_size file, percentage = Num 0,
                                       status = Uploading, perror = None\<rparr>)] \<and>
   (\<not> valid (validateFile file) \<longrightarrow>
    progress (hooks (upload h file w) h) =
      Some \<lparr>filename = file_name file, loaded = 0, total = file_size file,
             percentage = Num 0, status = Uploading, perror = None\<rparr>)"
proof (intro conjI)
  show "list_all publishes_assigned (trace (run es))"
    using only_assigned_run [of es] by (simp add: only_assigned_def)
  show "\<forall>k. shows_assigned (hooks (run es) k)"
    using only_assigned_run [of es] by (simp add: only_assigned_def)
  show "\<not> assigned_status Queued" and "\<not> assigned_status Processing"
    by (simp_all add: assigned_status_def)
  show "take (Suc (length (trace w))) (trace (upload h file w)) =
     trace w @ [SetProgress h (Some \<lparr>filename = file_name file, loaded = 0,
                                       total = file_size file, percentage = Num 0,
                                       status = Uploading, perror = None\<rparr>)]"
    by (simp add: upload_def prim_defs Let_def)
  show "\<not> valid (validateFile file) \<longrightarrow>
    progress (hooks (upload h file w) h) =
      Some \<lparr>filename = file_name file, loaded = 0, total = file_size file,
             percentage = Num 0, status = Uploading, perror = None\<rparr>"
    by (simp add: upload_def prim_defs Let_def)
qed

text \<open>
  C10 at the session \<open>completed_session\<close> and at the upload of the empty file
  \<open>empty_txt\<close> in the initial world.
\<close>

theorem C10_only_uploading_completed_failed_witness:
  "\<not> valid (validateFile empty_txt) \<and>
   progress (hooks (upload 0 empty_txt init_world) 0) =
     Some \<lparr>filename = lit ''empty.txt'', loaded = 0, total = 0,
            percentage = Num 0, status = Uploading, perror = None\<rparr> \<and>
   list_all publishes_assigned (trace (run completed_session)) \<and>
   shows_assigned (hooks (run completed_session) 0) \<and>
   progress (hooks (run completed_session) 0) \<noteq> None"
  using C10_only_uploading_completed_failed [of completed_session init_world 0 empty_txt]
  by (simp add: invalid_empty_txt) (simp add: empty_txt_def session_defs hook_defs
      valid_report_pdf Let_def)

section \<open>An empty file, and a failed lookup\<close>

text \<open>
  C8: for every file of size 0, in every world, \<open>upload\<close> publishes the initial
  progress, calls \<open>onError\<close> with the message of the empty-file check and rejects its
  promise with it, and does nothing else: no request is made (none can be sent), the
  registry loses at most the entry of the new id, which it never had, so an empty registry
  stays empty, and the new id is not registered. \<open>handleFileSelect\<close> reports the same
  message and neither looks up a duplicate nor calls \<open>upload\<close>.
\<close>

theorem C8_empty_file_rejected_before_network:
  assumes "file_size file = 0"
  shows "trace (upload h file w) =
           trace w @
           [SetProgress h (Some \<lparr>filename = file_name file, loaded = 0, total = 0,
                                  percentage = Num 0, status = Uploading, perror = None\<rparr>),
            OnError (uploadIdCounter w + 1) (Error [Text (lit ''Cannot upload empty file'')]),
            Reject (uploadIdCounter w + 1) (Error [Text (lit ''Cannot upload empty file'')])] \<and>
         xhrs (upload h file w) = xhrs w \<and>
         activeUploadCancelFunctions (upload h file w) =
           AList.delete (uploadIdCounter w + 1) (activeUploadCancelFunctions w) \<and>
         map_of (activeUploadCancelFunctions (upload h file w)) (uploadIdCounter w + 1) = None \<and>
         handleFileSelect file lookup upload1 upload2 =
           ([SetValidationError None,
             SetValidationError (Some (lit ''Cannot upload empty file''))], Fulfilled ())"
proof -
  have v: "validateFile file =
      \<lparr>valid = False, verror = Some (lit ''Cannot upload empty file'')\<rparr>"
    using assms by (rule validateFile_empty)
  have ne: "lit ''Cannot upload empty file'' \<noteq> []"
    by (simp add: lit_def)
  show ?thesis
    using assms ne
    by (simp add: upload_def handleFileSelect_def v prim_defs Let_def delete_conv')
qed

text \<open>C8 at the empty file \<open>empty_txt\<close>, handed to hook 0 in the initial world.\<close>

theorem C8_empty_file_rejected_before_network_witness:
  "file_size empty_txt = 0 \<and>
   trace (upload 0 empty_txt init_world) =
     [SetProgress 0 (Some \<lparr>filename = lit ''empty.txt'', loaded = 0, total = 0,
                            percentage = Num 0, status = Uploading, perror = None\<rparr>),
      OnError 1 (Error [Text (lit ''Cannot upload empty file'')]),
      Reject 1 (Error [Text (lit ''Cannot upload empty file'')])] \<and>
   filter is_send (trace (upload 0 empty_txt init_world)) = [] \<and>
   xhrs (upload 0 empty_txt init_world) = [] \<and>
   activeUploadCancelFunctions (upload 0 empty_txt init_world) = []"
  using C8_empty_file_rejected_before_network [of empty_txt 0 init_world]
  by (simp add: empty_txt_def init_world_def)

text \<open>
  C9: for every file that passes validation, when the duplicate lookup rejects,
  \<open>handleFileSelect\<close> shows no dialog and calls \<open>upload\<close> once with the file; its own
  promise ends as that upload ends, so the lookup error is not surfaced. A listing
  request that fails is answered with \<open>null\<close> by the lookup itself, and unless the
  upload rejects, \<open>handleFileSelect\<close> does after a rejected lookup what it does after a
  lookup that found no duplicate.
\<close>

theorem C9_lookup_failure_absorbed:
  assumes "valid (validateFile file)"
  shows "handleFileSelect file Rejected upload1 upload2 =
           ([SetValidationError None, SetSelectedFile file, CheckDuplicate (file_name file),
             OnUploadStart, CallUpload file], upload1) \<and>
         checkDuplicate_mutationFn toLowerCase ListingFailed (file_name file) = None \<and>
         (upload1 \<noteq> Rejected \<longrightarrow>
          handleFileSelect file Rejected upload1 upload2 =
          handleFileSelect file
            (Fulfilled (checkDuplicate_mutationFn toLowerCase ListingFailed (file_name file)))
            upload1 upload2)"
  using assms
  by (cases upload1) (simp_all add: handleFileSelect_def checkDuplicate_mutationFn_def Let_def)

text \<open>C9 at the file \<open>report_pdf\<close>, with an upload that resolves.\<close>

theorem C9_lookup_failure_absorbed_witness:
  "valid (validateFile report_pdf) \<and>
   handleFileSelect report_pdf Rejected (Fulfilled ()) Pending =
     ([SetValidationError None, SetSelectedFile report_pdf,
       CheckDuplicate (lit ''report.pdf''), OnUploadStart, CallUpload report_pdf],
      Fulfilled ()) \<and>
   handleFileSelect report_pdf Rejected (Fulfilled ()) Pending =
     handleFileSelect report_pdf (Fulfilled None) (Fulfilled ()) Pending"
  using C9_lookup_failure_absorbed [of report_pdf "Fulfilled ()" Pending "\<lambda>s. s"]
  by (auto simp: valid_report_pdf report_pdf_fields checkDuplicate_mutationFn_def)

section \<open>The percentage is monotone in the bytes loaded\<close>

lemmas pct_eval = js_percentage_def times_100_def Math_round_def to_double_def pow2_le_def
  rne_div_def compute_floorlog Let_def

text \<open>
  The double arithmetic shows: 29 of 200 bytes are 14.5 percent, the product of the
  double nearest to 0.145 and 100 rounds to 14.499999999999998, and the percentage
  published is 14.
\<close>

lemma js_percentage_29_200: "js_percentage 29 200 = Num 14"
  by (simp add: pct_eval)































section \<open>The progress published by a transfer that succeeds\<close>





















































section \<open>The load listener on a rejection whose body parses\<close>

text \<open>
  When the status is not 2xx and the body parses to a value other than \<open>null\<close>, the
  listener does set the error, from \<open>detail.message\<close>, else \<open>detail\<close>, else the
  status code, and fails the task; it calls \<open>onError\<close> once with the message coerced to
  a string, unless the coercion throws.
\<close>

lemma on_load_rejected_parsed:
  assumes "\<not> (200 \<le> st \<and> st < 300)" and "get_prop body (lit ''detail'') = Inr detail"
  defines "errorMsg \<equiv> or_else (optional_message detail) detail
                        (JString (lit ''Upload failed with status '' @ decimal st))"
  shows "error (hooks (on_load x st (Parsed body) w) (owner (xhrs w ! x))) = Some errorMsg"
    and "map_option status (progress (hooks (on_load x st (Parsed body) w) (owner (xhrs w ! x)))) =
           Some Failed"
    and "uploading (hooks (on_load x st (Parsed body) w) (owner (xhrs w ! x))) = False"
    and "ToString errorMsg = Inr msg \<Longrightarrow>
         callbacks (xhr_uploadId (xhrs w ! x)) (on_load x st (Parsed body) w) =
           callbacks (xhr_uploadId (xhrs w ! x)) w @
           [OnError (xhr_uploadId (xhrs w ! x)) (Error msg)]"
    and "ToString errorMsg = Inl () \<Longrightarrow>
         callbacks (xhr_uploadId (xhrs w ! x)) (on_load x st (Parsed body) w) =
           callbacks (xhr_uploadId (xhrs w ! x)) w"
  using assms(1,2)
  by (auto simp: on_load_def prim_defs callbacks_def Let_def errorMsg_def split: sum.splits)

text \<open>Status 413 with the body \<open>{"detail":"too large"}\<close>.\<close>

lemma rejected_with_detail:
  "error (hooks (run [Upload 0 report_pdf, TokenReady 0, XhrLoad 0 413 too_large_body]) 0) =
     Some (JString (lit ''too large'')) \<and>
   map_option status
     (progress (hooks (run [Upload 0 report_pdf, TokenReady 0, XhrLoad 0 413 too_large_body]) 0)) =
     Some Failed \<and>
   activeUploadCancelFunctions (run [Upload 0 report_pdf, TokenReady 0, XhrLoad 0 413 too_large_body]) = [] \<and>
   callbacks 1 (run [Upload 0 report_pdf, TokenReady 0, XhrLoad 0 413 too_large_body]) =
     [OnError 1 (Error [Text (lit ''too large'')])]"
  by (simp add: session_defs hook_defs valid_report_pdf report_pdf_fields Let_def or_else_def)
    (simp add: lit_def)

section \<open>Where cancelling does nothing, and what cancelling all always does\<close>

text \<open>
  \<open>cancel\<close> changes nothing while the hook has made no request. Once it has made one,
  \<open>xhrRef\<close> holds it from then on, and every \<open>cancel\<close> leaves the hook cancelled,
  whatever the hook showed before.
\<close>

lemma cancel_without_request: "xhrRef (hooks w h) = None \<Longrightarrow> cancel h w = w"
  by (simp add: cancel_def)

lemma cancel_with_request:
  assumes "xhrRef (hooks w h) = Some x"
  shows "progress (hooks (cancel h w) h) = None"
    and "error (hooks (cancel h w) h) = Some (JString (lit ''Upload cancelled''))"
    and "uploading (hooks (cancel h w) h) = False"
  using assms
  by (simp_all add: cancel_def Let_def prim_defs split: option.splits)

lemma cancelAll_registry_empty: "activeUploadCancelFunctions (cancelAllActiveUploads w) = []"
  by (simp add: cancelAllActiveUploads_def)

section \<open>No callback, ever, for the session its load listener has left\<close>

lemma abandoned_start: "abandoned (run rejected_unparseable)"
  by (simp add: abandoned_def session_defs hook_defs valid_report_pdf report_pdf_fields Let_def)

lemma tl_update: "0 < x \<Longrightarrow> tl (xs[x := y]) = (tl xs)[x - 1 := y]"
  by (cases xs; cases x) simp_all

lemma other_request:
  assumes "abandoned w" "x < length (xhrs w)" "readyState (xhrs w ! x) \<noteq> Done"
  shows "0 < x" and "xhr_uploadId (xhrs w ! x) \<noteq> 1"
proof -
  show x: "0 < x"
    using assms by (cases x) (simp_all add: abandoned_def)
  then have "xhrs w ! x = tl (xhrs w) ! (x - 1)" and "x - 1 < length (tl (xhrs w))"
    using assms(2) by (cases "xhrs w"; cases x; simp)+
  then show "xhr_uploadId (xhrs w ! x) \<noteq> 1"
    using assms(1) by (simp add: abandoned_def list_all_length)
qed

lemma abandoned_set_readyState:
  assumes "abandoned w" "x < length (xhrs w)" "readyState (xhrs w ! x) \<noteq> Done"
  shows "abandoned (set_readyState x st w)"
proof -
  have x: "0 < x" by (rule other_request(1) [OF assms])
  have "list_all (\<lambda>r. xhr_uploadId r \<noteq> 1) ((tl (xhrs w))[x - 1 := (xhrs w ! x)\<lparr>readyState := st\<rparr>])"
    using assms(1) other_request(2) [OF assms]
    by (auto simp: abandoned_def list_all_iff dest!: set_update_subset_insert [THEN subsetD])
  then show ?thesis
    using assms(1) x
    by (simp add: abandoned_def set_readyState_def callbacks_def tl_update)
qed


lemma abandoned_prims:
  "abandoned (setProgress h p w) = abandoned w"
  "abandoned (setUploading h b w) = abandoned w"
  "abandoned (setError h e w) = abandoned w"
  "abandoned (set_uploadIdRef h i w) = abandoned w"
  "abandoned (set_xhrRef h r w) = abandoned w"
  "abandoned (registry_set u h w) = abandoned w"
  "abandoned (registry_delete u w) = abandoned w"
  "abandoned (emit a w) = (abandoned w \<and> \<not> is_callback 1 a)"
  by (auto simp: abandoned_def prim_defs callbacks_def)

lemma prims_keep_requests:
  "xhrs (setProgress h p w) = xhrs w"
  "xhrs (setUploading h b w) = xhrs w"
  "xhrs (setError h e w) = xhrs w"
  "xhrs (set_uploadIdRef h i w) = xhrs w"
  "xhrs (set_xhrRef h r w) = xhrs w"
  "xhrs (registry_set u h w) = xhrs w"
  "xhrs (registry_delete u w) = xhrs w"
  "xhrs (emit a w) = xhrs w"
  by (simp_all add: prim_defs)

lemma abandoned_on_progress:
  "abandoned w \<Longrightarrow> xhr_uploadId (xhrs w ! x) \<noteq> 1 \<Longrightarrow> abandoned (on_progress x lc l t w)"
  by (simp add: on_progress_def Let_def abandoned_prims)

lemma abandoned_on_load:
  "abandoned w \<Longrightarrow> xhr_uploadId (xhrs w ! x) \<noteq> 1 \<Longrightarrow> abandoned (on_load x st body w)"
  by (simp add: on_load_def Let_def abandoned_prims
      split: parse_result.splits sum.splits outcome.splits)

lemma abandoned_on_error:
  "abandoned w \<Longrightarrow> xhr_uploadId (xhrs w ! x) \<noteq> 1 \<Longrightarrow> abandoned (on_error x w)"
  by (simp add: on_error_def Let_def abandoned_prims)

lemma abandoned_on_abort:
  "abandoned w \<Longrightarrow> xhr_uploadId (xhrs w ! x) \<noteq> 1 \<Longrightarrow> abandoned (on_abort x w)"
  by (simp add: on_abort_def Let_def abandoned_prims)

lemma set_readyState_uploadId:
  "x < length (xhrs w) \<Longrightarrow>
   xhr_uploadId (xhrs (set_readyState x st w) ! x) = xhr_uploadId (xhrs w ! x)"
  by (simp add: set_readyState_def)

lemma abandoned_ended:
  assumes "abandoned w" "in_state x InFlight w"
  shows "abandoned (set_readyState x Done w)"
    and "xhr_uploadId (xhrs (set_readyState x Done w) ! x) \<noteq> 1"
proof -
  have x: "x < length (xhrs w)" and nd: "readyState (xhrs w ! x) \<noteq> Done"
    using assms(2) by (simp_all add: in_state_def)
  show "abandoned (set_readyState x Done w)"
    by (rule abandoned_set_readyState [OF assms(1) x nd])
  show "xhr_uploadId (xhrs (set_readyState x Done w) ! x) \<noteq> 1"
    using other_request(2) [OF assms(1) x nd] by (simp add: set_readyState_uploadId x)
qed

lemma abandoned_xhr_abort: "abandoned w \<Longrightarrow> abandoned (xhr_abort x w)"
proof -
  assume a: "abandoned w"
  let ?w = "emit (Abort x) w"
  have a': "abandoned ?w"
    using a by (simp add: abandoned_prims)
  show ?thesis
  proof (cases "in_state x InFlight ?w")
    case True
    have "abandoned (on_abort x (set_readyState x Done ?w))"
      by (rule abandoned_on_abort [OF abandoned_ended [OF a' True]])
    then show ?thesis
      using True by (simp add: xhr_abort_def Let_def in_state_def)
  next
    case False
    then show ?thesis
      using a' by (auto simp: xhr_abort_def Let_def in_state_def)
  qed
qed

lemma abandoned_cancel: "abandoned w \<Longrightarrow> abandoned (cancel h w)"
  using abandoned_xhr_abort [of w]
  by (simp add: cancel_def Let_def abandoned_prims split: option.splits)

lemma abandoned_forEach_cancel: "abandoned w \<Longrightarrow> abandoned (forEach_cancel r w)"
proof (induction r arbitrary: w)
  case Nil
  then show ?case by simp
next
  case (Cons e r)
  obtain u h where e: "e = (u, h)" by (cases e)
  show ?case
    using Cons.IH [OF Cons.prems] Cons.IH [OF abandoned_cancel [OF Cons.prems, of h]]
    by (simp add: e)
qed

lemma abandoned_cancelAll: "abandoned w \<Longrightarrow> abandoned (cancelAllActiveUploads w)"
  using abandoned_forEach_cancel [of w "activeUploadCancelFunctions w"]
  by (simp add: cancelAllActiveUploads_def abandoned_def callbacks_def)

lemma prims_keep_counter:
  "uploadIdCounter (setProgress h p w) = uploadIdCounter w"
  "uploadIdCounter (setUploading h b w) = uploadIdCounter w"
  "uploadIdCounter (setError h e w) = uploadIdCounter w"
  "uploadIdCounter (set_uploadIdRef h i w) = uploadIdCounter w"
  by (simp_all add: prim_defs)

lemma abandoned_new_request:
  assumes "abandoned w" "u \<noteq> 1"
  shows "abandoned (w\<lparr>xhrs := xhrs w @ [\<lparr>readyState = Unsent, owner = h, xhr_uploadId = u,
                                        xhr_file = file\<rparr>]\<rparr>)"
  using assms by (cases "xhrs w") (simp_all add: abandoned_def callbacks_def)

lemma abandoned_upload: "abandoned w \<Longrightarrow> abandoned (upload h file w)"
proof -
  assume a: "abandoned w"
  have b: "abandoned (w\<lparr>uploadIdCounter := Suc (uploadIdCounter w)\<rparr>)"
    using a by (simp add: abandoned_def callbacks_def)
  have d: "uploadIdCounter w \<noteq> 0"
    using a by (simp add: abandoned_def)
  show ?thesis
    using b d
    by (simp add: upload_def Let_def abandoned_prims abandoned_new_request)
qed

lemma abandoned_step: "abandoned w \<Longrightarrow> abandoned (step w e)"
proof (cases e)
  case (TokenReady x)
  assume a: "abandoned w"
  show ?thesis
    using a abandoned_set_readyState [OF a, of x InFlight]
    by (auto simp: TokenReady in_state_def abandoned_prims)
next
  case (XhrProgress x lc l t)
  assume a: "abandoned w"
  show ?thesis
    using a other_request(2) [OF a, of x]
    by (auto simp: XhrProgress in_state_def intro: abandoned_on_progress)
next
  case (XhrLoad x st body)
  assume a: "abandoned w"
  show ?thesis
    using a abandoned_ended [OF a, of x]
    by (auto simp: XhrLoad intro: abandoned_on_load)
next
  case (XhrError x)
  assume a: "abandoned w"
  show ?thesis
    using a abandoned_ended [OF a, of x]
    by (auto simp: XhrError intro: abandoned_on_error)
qed (simp_all add: abandoned_upload abandoned_cancel abandoned_cancelAll)

lemma abandoned_foldl: "abandoned w \<Longrightarrow> abandoned (foldl step w es)"
  by (induction es arbitrary: w) (simp_all add: abandoned_step)

text \<open>
  C1 at the session \<open>rejected_unparseable\<close>: the request is answered with status 500
  and a body that \<open>JSON.parse\<close> rejects. The load listener ends in the exception; the
  trace holds the first publication of progress and the sending of the request and
  nothing else, so neither \<open>onSuccess\<close> nor \<open>onError\<close> has been called for the upload.
  Whatever happens afterwards (\<open>es\<close>: calls of \<open>cancel\<close> and
  \<open>cancelAllActiveUploads\<close>, further uploads, events of other requests), none is ever
  called for it.
\<close>

theorem C1_rejection_without_callback:
  "trace (run rejected_unparseable) =
     [SetProgress 0 (Some \<lparr>filename = lit ''report.pdf'', loaded = 0, total = 1024,
                            percentage = Num 0, status = Uploading, perror = None\<rparr>),
      Send 0] \<and>
   callbacks 1 (run rejected_unparseable) = [] \<and>
   callbacks 1 (run (rejected_unparseable @ es)) = []"
proof -
  have "abandoned (foldl step (run rejected_unparseable) es)"
    by (rule abandoned_foldl [OF abandoned_start])
  then have "callbacks 1 (run (rejected_unparseable @ es)) = []"
    by (simp add: abandoned_def run_def)
  moreover have "trace (run rejected_unparseable) =
     [SetProgress 0 (Some \<lparr>filename = lit ''report.pdf'', loaded = 0, total = 1024,
                            percentage = Num 0, status = Uploading, perror = None\<rparr>),
      Send 0]"
    by (simp add: session_defs hook_defs valid_report_pdf report_pdf_fields Let_def)
  ultimately show ?thesis
    by (simp add: callbacks_def)
qed

end
